theory Spec2Isabelle
  imports Complex_Main
begin

section \<open>The signal engine of \<open>src/lib/services/signal-engine.ts\<close>\<close>

text \<open>
  The engine is a pure function from a series of closing prices to a signal result.
  A JavaScript \<open>number\<close> is modelled as a \<^typ>\<open>real\<close>: the arithmetic is exact, so the
  rounding error of IEEE-754 doubles is not part of the model, and there is no \<open>NaN\<close> and
  no infinity. The places where the source can leave the finite numbers are written out:
  \<^item> an empty price series (\<open>Math.max()\<close> is \<open>-Infinity\<close>, \<open>prices[-1]\<close> is
    \<open>undefined\<close>) is the value \<open>None\<close> of the functions that read it;
  \<^item> the only division whose divisor is not guarded by the source, the one by the price in
    \<open>scoreSRProximity\<close>, has its zero-divisor branch spelled out (\<open>quotient_le\<close>);
  \<^item> a period is a \<^typ>\<open>nat\<close>; every caller in the repository passes a positive
    constant, and the statements about \<open>calculateEMA\<close> and \<open>calculateRSI\<close> assume
    \<open>1 \<le> period\<close> (at period \<open>0\<close> the source divides \<open>0 / 0\<close>).
  \<open>null\<close> is \<open>None\<close>, and JavaScript truthiness of a \<open>number | null\<close> is \<open>truthy\<close>.
\<close>

subsection \<open>Exponential moving average\<close>

text \<open>
  \<open>calculateEMA\<close>: two \<open>for\<close> loops, the first summing \<open>prices[0..period-1]\<close>, the second
  pushing one value per index \<open>period..length-1\<close> onto \<open>emaValues\<close>.
\<close>

definition calculateEMA :: "real list \<Rightarrow> nat \<Rightarrow> real list" where
  "calculateEMA prices period =
     (if length prices < period then []
      else
        let multiplier = 2 / (real period + 1);
            sum = fold (\<lambda>i s. s + prices ! i) [0..<period] 0;
            emaValues = [sum / real period]
        in fold (\<lambda>i ev. ev @ [(prices ! i - last ev) * multiplier + last ev])
                [period..<length prices] emaValues)"

text \<open>
  \<open>getLatestEMA\<close>: the last moving-average value, or \<open>prices[prices.length - 1]\<close> when
  there is none; that read is \<open>undefined\<close> on an empty series (\<open>None\<close>).
\<close>

definition getLatestEMA :: "real list \<Rightarrow> nat \<Rightarrow> real option" where
  "getLatestEMA prices period =
     (let ema = calculateEMA prices period
      in if length ema > 0 then Some (last ema)
         else if prices = [] then None else Some (last prices))"

subsection \<open>Retracement levels\<close>

record FibLevels =
  high :: real
  low :: real
  level_236 :: real
  level_382 :: real
  level_500 :: real
  level_618 :: real
  level_786 :: real

text \<open>
  \<open>prices.slice(-lookback)\<close>: the trailing \<open>lookback\<close> elements, the whole array when
  it is shorter, and the whole array for \<open>lookback = 0\<close> as well (\<open>slice(-0)\<close> is
  \<open>slice(0)\<close>).
\<close>

definition trailingWindow :: "real list \<Rightarrow> nat \<Rightarrow> real list" where
  "trailingWindow prices lookback =
     (if lookback = 0 then prices else drop (length prices - lookback) prices)"

text \<open>
  \<open>calculateFibLevels\<close>. On an empty window \<open>Math.max()\<close> and \<open>Math.min()\<close> are
  \<open>-Infinity\<close> and \<open>Infinity\<close>; that result is \<open>None\<close>.
\<close>

definition calculateFibLevels :: "real list \<Rightarrow> nat \<Rightarrow> FibLevels option" where
  "calculateFibLevels prices lookback =
     (let window = trailingWindow prices lookback
      in if window = [] then None
         else
           let high = Max (set window);
               low = Min (set window);
               range = high - low
           in Some \<lparr> high = high,
                     low = low,
                     level_236 = high - range * (236 / 1000),
                     level_382 = high - range * (382 / 1000),
                     level_500 = high - range * (5 / 10),
                     level_618 = high - range * (618 / 1000),
                     level_786 = high - range * (786 / 1000) \<rparr>)"

subsection \<open>Nearest support and resistance\<close>

record NearestLevels =
  support :: "real option"
  resistance :: "real option"

text \<open>
  The body of the \<open>for (const level of levels)\<close> loop. The source tests
  \<open>!support || level > support\<close>: \<open>!support\<close> holds for \<open>null\<close> and for the number \<open>0\<close>.
\<close>

definition nearestStep :: "real \<Rightarrow> real \<Rightarrow> NearestLevels \<Rightarrow> NearestLevels" where
  "nearestStep currentPrice level acc =
     (let acc1 =
            (if level \<le> currentPrice
             then (case support acc of
                     None \<Rightarrow> acc\<lparr>support := Some level\<rparr>
                   | Some s \<Rightarrow> if s = 0 \<or> level > s then acc\<lparr>support := Some level\<rparr> else acc)
             else acc)
      in if level \<ge> currentPrice
         then (case resistance acc1 of
                 None \<Rightarrow> acc1\<lparr>resistance := Some level\<rparr>
               | Some r \<Rightarrow> if r = 0 \<or> level < r then acc1\<lparr>resistance := Some level\<rparr> else acc1)
         else acc1)"

definition fibCandidates :: "FibLevels \<Rightarrow> real list" where
  "fibCandidates fib =
     [low fib, level_786 fib, level_618 fib, level_500 fib, level_382 fib, level_236 fib, high fib]"

definition findNearestFibLevels :: "real \<Rightarrow> FibLevels \<Rightarrow> NearestLevels" where
  "findNearestFibLevels currentPrice fib =
     fold (nearestStep currentPrice) (fibCandidates fib) \<lparr> support = None, resistance = None \<rparr>"

text \<open>\<open>scoreFibPosition\<close>: the chain of early returns, in the order of the source.\<close>

definition scoreFibPosition :: "real \<Rightarrow> FibLevels \<Rightarrow> real" where
  "scoreFibPosition price fib =
     (let range = high fib - low fib
      in if range = 0 then 0
         else
           let position = (price - low fib) / range
           in if position \<ge> 6 / 10 \<and> position \<le> 65 / 100 then 20
              else if position \<ge> 75 / 100 \<and> position \<le> 8 / 10 then 15
              else if position \<ge> 35 / 100 \<and> position \<le> 4 / 10 then 10
              else if position > 1 then 25
              else if position < 0 then - 25
              else if position > 764 / 1000 then 5
              else if position < 3 / 10 then - 15
              else 0)"

subsection \<open>Relative strength index\<close>

text \<open>
  The two loops of \<open>calculateRSI\<close>: the sums of gains and losses over the first \<open>period\<close>
  changes, then Wilder's smoothing over the remaining changes. \<open>rsiAverages\<close> is the pair
  \<open>(avgGain, avgLoss)\<close> after the second loop.
\<close>

definition rsiInitial :: "real list \<Rightarrow> nat \<Rightarrow> real \<times> real" where
  "rsiInitial prices period =
     fold (\<lambda>i (gains, losses).
             let change = prices ! i - prices ! (i - 1)
             in if change > 0 then (gains + change, losses) else (gains, losses + \<bar>change\<bar>))
          [1..<period + 1] (0, 0)"

definition rsiSmooth :: "real list \<Rightarrow> nat \<Rightarrow> nat \<Rightarrow> real \<times> real \<Rightarrow> real \<times> real" where
  "rsiSmooth prices period i = (\<lambda>(avgGain, avgLoss).
     let change = prices ! i - prices ! (i - 1)
     in ((avgGain * (real period - 1) + (if change > 0 then change else 0)) / real period,
         (avgLoss * (real period - 1) + (if change < 0 then \<bar>change\<bar> else 0)) / real period))"

definition rsiAverages :: "real list \<Rightarrow> nat \<Rightarrow> real \<times> real" where
  "rsiAverages prices period =
     (let (gains, losses) = rsiInitial prices period
      in fold (rsiSmooth prices period) [period + 1..<length prices]
              (gains / real period, losses / real period))"

definition calculateRSI :: "real list \<Rightarrow> nat \<Rightarrow> real" where
  "calculateRSI prices period =
     (if length prices < period + 1 then 50
      else
        let (avgGain, avgLoss) = rsiAverages prices period
        in if avgLoss = 0 then 100
           else let rs = avgGain / avgLoss in 100 - 100 / (1 + rs))"

definition scoreRSI :: "real \<Rightarrow> real" where
  "scoreRSI rsi =
     (if rsi \<le> 30 then 20
      else if rsi \<le> 40 then 10
      else if rsi \<ge> 70 then - 20
      else if rsi \<ge> 60 then - 10
      else 0)"

subsection \<open>Alignment, proximity and momentum scores\<close>

definition scoreEMAAlignment :: "real \<Rightarrow> real \<Rightarrow> real \<Rightarrow> real \<Rightarrow> real \<Rightarrow> real" where
  "scoreEMAAlignment price ema9 ema21 ema50 ema200 =
     (let s1 = (if price > ema9 then 5 else 0);
          s2 = s1 + (if price > ema21 then 4 else 0);
          s3 = s2 + (if price > ema50 then 4 else 0);
          s4 = s3 + (if price > ema200 then 3 else 0);
          s5 = s4 + (if ema9 > ema21 \<and> ema21 > ema50 \<and> ema50 > ema200 then 4 else 0);
          s6 = s5 - (if ema9 < ema21 \<and> ema21 < ema50 \<and> ema50 < ema200 then 4 else 0);
          s7 = s6 - (if price < ema9 then 5 else 0);
          s8 = s7 - (if price < ema21 then 4 else 0);
          s9 = s8 - (if price < ema50 then 4 else 0);
          score = s9 - (if price < ema200 then 3 else 0)
      in max (- 20) (min 20 score))"

text \<open>
  Truthiness of a \<open>number | null\<close>: \<open>null\<close> and \<open>0\<close> are falsy.
\<close>

definition truthy :: "real option \<Rightarrow> bool" where
  "truthy v = (case v of None \<Rightarrow> False | Some x \<Rightarrow> x \<noteq> 0)"

text \<open>
  \<open>n / d <= c\<close> as JavaScript evaluates it on finite numbers: for \<open>d = 0\<close> (the
  positive zero; the reals have no other) the quotient is
  \<open>-Infinity\<close> when \<open>n < 0\<close> (the test holds), \<open>Infinity\<close> when \<open>n > 0\<close> and \<open>NaN\<close>
  when \<open>n = 0\<close> (the test fails).
\<close>

definition quotient_le :: "real \<Rightarrow> real \<Rightarrow> real \<Rightarrow> bool" where
  "quotient_le n d c = (if d = 0 then n < 0 else n / d \<le> c)"

definition scoreSRProximity :: "real \<Rightarrow> real option \<Rightarrow> real option \<Rightarrow> real" where
  "scoreSRProximity price fibSupport fibResistance =
     (if \<not> truthy fibSupport \<and> \<not> truthy fibResistance then 0
      else
        let s1 = (case fibSupport of
                    None \<Rightarrow> 0
                  | Some fs \<Rightarrow>
                      if fs = 0 then 0
                      else if quotient_le (price - fs) price (2 / 100) then 12
                      else if quotient_le (price - fs) price (5 / 100) then 6
                      else 0);
            score = (case fibResistance of
                       None \<Rightarrow> s1
                     | Some fr \<Rightarrow>
                         if fr = 0 then s1
                         else if quotient_le (fr - price) price (2 / 100) then s1 - 12
                         else if quotient_le (fr - price) price (5 / 100) then s1 - 6
                         else s1)
        in max (- 15) (min 15 score))"

subsection \<open>Convergence/divergence\<close>

record MACD =
  macdLine :: real
  signalLine :: real
  histogram :: real

definition calculateMACD :: "real list \<Rightarrow> MACD" where
  "calculateMACD prices =
     (let ema12 = calculateEMA prices 12;
          ema26 = calculateEMA prices 26
      in if length ema12 = 0 \<or> length ema26 = 0
         then \<lparr> macdLine = 0, signalLine = 0, histogram = 0 \<rparr>
         else
           let offset = length ema12 - length ema26;
               macdValues = map (\<lambda>i. ema12 ! (i + offset) - ema26 ! i) [0..<length ema26];
               signalEMA = calculateEMA macdValues 9;
               macdLine = last macdValues;
               signalLine = (if length signalEMA > 0 then last signalEMA else 0)
           in \<lparr> macdLine = macdLine, signalLine = signalLine,
                histogram = macdLine - signalLine \<rparr>)"

definition scoreMACDMomentum :: "real \<Rightarrow> real \<Rightarrow> real \<Rightarrow> real" where
  "scoreMACDMomentum mLine sLine hist =
     (let s1 = (if mLine > sLine then 7 else - 7);
          s2 = s1 + (if hist > 0 then 5 else - 5);
          score = s2 + (if mLine > 0 \<and> sLine > 0 then 3
                        else if mLine < 0 \<and> sLine < 0 then - 3 else 0)
      in max (- 15) (min 15 score))"

subsection \<open>Composite score and the entry point\<close>

definition labelFromScore :: "real \<Rightarrow> string" where
  "labelFromScore score =
     (if score \<ge> 50 then ''strong_buy''
      else if score \<ge> 20 then ''buy''
      else if score \<le> - 50 then ''strong_sell''
      else if score \<le> - 20 then ''sell''
      else ''neutral'')"

record SignalResult =
  ticker :: string
  date :: string
  rsi_14 :: real
  ema_9 :: real
  ema_21 :: real
  ema_50 :: real
  ema_200 :: real
  macd_line :: real
  macd_signal :: real
  macd_histogram :: real
  fib_levels :: FibLevels
  signal_score :: real
  signal_label :: string
  nearest_fib_support :: "real option"
  nearest_fib_resistance :: "real option"

text \<open>\<open>Math.round(x * 10^d) / 10^d\<close>; \<open>Math.round\<close> rounds a half towards \<open>+\<infinity>\<close>.\<close>

definition mathRound :: "real \<Rightarrow> real" where
  "mathRound x = of_int \<lfloor>x + 1 / 2\<rfloor>"

definition roundTo :: "nat \<Rightarrow> real \<Rightarrow> real" where
  "roundTo d x = mathRound (x * 10 ^ d) / 10 ^ d"

text \<open>
  The indicators and the five sub-scores that \<open>generateSignals\<close> computes before it
  builds its result, as records of the local constants of the source.
\<close>

record Indicators =
  i_price :: real
  i_fib :: FibLevels
  i_nearest :: NearestLevels
  i_rsi :: real
  i_ema9 :: real
  i_ema21 :: real
  i_ema50 :: real
  i_ema200 :: real
  i_macd :: MACD

record SubScores =
  fibScore :: real
  rsiScore :: real
  emaScore :: real
  srScore :: real
  macdScore :: real

definition indicators :: "real list \<Rightarrow> Indicators option" where
  "indicators closePrices =
     (if closePrices = [] then None
      else
        let currentPrice = last closePrices
        in case calculateFibLevels closePrices 60 of
             None \<Rightarrow> None
           | Some fib \<Rightarrow>
              (case (getLatestEMA closePrices 9, getLatestEMA closePrices 21,
                     getLatestEMA closePrices 50, getLatestEMA closePrices 200) of
                 (Some ema9, Some ema21, Some ema50, Some ema200) \<Rightarrow>
                   Some \<lparr> i_price = currentPrice,
                          i_fib = fib,
                          i_nearest = findNearestFibLevels currentPrice fib,
                          i_rsi = calculateRSI closePrices 14,
                          i_ema9 = ema9, i_ema21 = ema21, i_ema50 = ema50, i_ema200 = ema200,
                          i_macd = calculateMACD closePrices \<rparr>
               | _ \<Rightarrow> None))"

definition subScores :: "Indicators \<Rightarrow> SubScores" where
  "subScores ind =
     \<lparr> fibScore = scoreFibPosition (i_price ind) (i_fib ind),
       rsiScore = scoreRSI (i_rsi ind),
       emaScore = scoreEMAAlignment (i_price ind) (i_ema9 ind) (i_ema21 ind) (i_ema50 ind)
                    (i_ema200 ind),
       srScore = scoreSRProximity (i_price ind) (support (i_nearest ind))
                   (resistance (i_nearest ind)),
       macdScore = scoreMACDMomentum (macdLine (i_macd ind)) (signalLine (i_macd ind))
                     (histogram (i_macd ind)) \<rparr>"

definition totalScore :: "SubScores \<Rightarrow> real" where
  "totalScore s = fibScore s + rsiScore s + emaScore s + srScore s + macdScore s"

definition generateSignals :: "string \<Rightarrow> real list \<Rightarrow> string \<Rightarrow> SignalResult option" where
  "generateSignals tick closePrices dat =
     (case indicators closePrices of
        None \<Rightarrow> None
      | Some ind \<Rightarrow>
          let clampedScore = max (- 100) (min 100 (totalScore (subScores ind)))
          in Some \<lparr> ticker = tick,
                    date = dat,
                    rsi_14 = roundTo 2 (i_rsi ind),
                    ema_9 = roundTo 2 (i_ema9 ind),
                    ema_21 = roundTo 2 (i_ema21 ind),
                    ema_50 = roundTo 2 (i_ema50 ind),
                    ema_200 = roundTo 2 (i_ema200 ind),
                    macd_line = roundTo 4 (macdLine (i_macd ind)),
                    macd_signal = roundTo 4 (signalLine (i_macd ind)),
                    macd_histogram = roundTo 4 (histogram (i_macd ind)),
                    fib_levels = i_fib ind,
                    signal_score = clampedScore,
                    signal_label = labelFromScore clampedScore,
                    nearest_fib_support = support (i_nearest ind),
                    nearest_fib_resistance = resistance (i_nearest ind) \<rparr>)"

subsection \<open>Notions used to state the properties\<close>

text \<open>
  The nearest levels as the specification words them (section 4.5): the support is the
  maximum of the candidates that are \<open>\<le>\<close> the current price, the resistance the minimum of
  those that are \<open>\<ge>\<close> it, and \<open>null\<close> when no candidate qualifies.
\<close>

definition specSupport :: "real \<Rightarrow> FibLevels \<Rightarrow> real option" where
  "specSupport currentPrice fib =
     (let qualifying = filter (\<lambda>c. c \<le> currentPrice) (fibCandidates fib)
      in if qualifying = [] then None else Some (Max (set qualifying)))"

definition specResistance :: "real \<Rightarrow> FibLevels \<Rightarrow> real option" where
  "specResistance currentPrice fib =
     (let qualifying = filter (\<lambda>c. c \<ge> currentPrice) (fibCandidates fib)
      in if qualifying = [] then None else Some (Min (set qualifying)))"

text \<open>A number with at most \<open>d\<close> decimal places: an integer multiple of \<open>10\<^sup>-\<^sup>d\<close>.\<close>

definition hasDecimals :: "nat \<Rightarrow> real \<Rightarrow> bool" where
  "hasDecimals d x = (of_int \<lfloor>x * 10 ^ d\<rfloor> = x * 10 ^ d)"

subsection \<open>Facts about the moving average\<close>

lemma ema_loop_length:
  "length (fold (\<lambda>i ev. ev @ [f i ev]) is ev0) = length ev0 + length is"
  by (induction "is" arbitrary: ev0) simp_all

text \<open>
  Claim C7. For a series of length \<open>n\<close> and a period \<open>p \<ge> 1\<close>, \<open>calculateEMA\<close> returns a
  sequence of length \<open>max(0, n - p + 1)\<close> (computed in the integers); the sequence is empty
  exactly when \<open>n < p\<close>, and it is an ordinary (empty) list, not a failure.
\<close>

theorem calculateEMA_length:
  assumes "1 \<le> p"
  shows "int (length (calculateEMA prices p)) = max 0 (int (length prices) - int p + 1)
       \<and> (calculateEMA prices p = [] \<longleftrightarrow> length prices < p)"
proof (cases "length prices < p")
  case True
  then show ?thesis by (simp add: calculateEMA_def)
next
  case False
  then have len: "length (calculateEMA prices p) = length prices - p + 1"
    by (simp add: calculateEMA_def Let_def ema_loop_length)
  then have "calculateEMA prices p \<noteq> []" by auto
  with len False show ?thesis by auto
qed

theorem calculateEMA_length_witness:
  "(1::nat) \<le> 3
   \<and> int (length (calculateEMA [1, 2, 3, 4, 5] 3)) = max 0 (int (length [1, 2, 3, 4, 5 :: real]) - int 3 + 1)
   \<and> length (calculateEMA [1, 2, 3, 4, 5] 3) = 3
   \<and> (calculateEMA [7, 8] 3 = [] \<longleftrightarrow> length [7, 8 :: real] < 3)
   \<and> calculateEMA [7, 8] 3 = []"
  using calculateEMA_length [of 3 "[1, 2, 3, 4, 5]"] calculateEMA_length [of 3 "[7, 8]"] by simp

lemma ema_seed_sum:
  "p \<le> length prices \<Longrightarrow> fold (\<lambda>i s. s + prices ! i) [0..<p] (0::real) = sum_list (take p prices)"
proof (induction p)
  case 0
  then show ?case by simp
next
  case (Suc p)
  then show ?case by (simp add: take_Suc_conv_app_nth)
qed

lemma ema_loop_nth:
  fixes prices :: "real list" and m seed :: real
  defines "step \<equiv> (\<lambda>i ev. ev @ [(prices ! i - last ev) * m + last ev])"
  shows "length (fold step [p..<p + d] [seed]) = d + 1
       \<and> fold step [p..<p + d] [seed] ! 0 = seed
       \<and> (\<forall>k<d. fold step [p..<p + d] [seed] ! (k + 1) =
              (prices ! (p + k) - fold step [p..<p + d] [seed] ! k) * m
              + fold step [p..<p + d] [seed] ! k)"
proof (induction d)
  case 0
  then show ?case by simp
next
  case (Suc d)
  let ?E = "fold step [p..<p + d] [seed]"
  have len: "length ?E = d + 1" and hd0: "?E ! 0 = seed"
    and rec: "\<forall>k<d. ?E ! (k + 1) = (prices ! (p + k) - ?E ! k) * m + ?E ! k"
    using Suc.IH by auto
  have ne: "?E \<noteq> []" using len by auto
  have lastE: "last ?E = ?E ! d" using len ne by (simp add: last_conv_nth)
  have unfold: "fold step [p..<p + Suc d] [seed] = ?E @ [(prices ! (p + d) - ?E ! d) * m + ?E ! d]"
    by (simp add: step_def lastE[unfolded step_def])
  show ?case
  proof (intro conjI allI impI)
    show "length (fold step [p..<p + Suc d] [seed]) = Suc d + 1"
      unfolding unfold using len by simp
    show "fold step [p..<p + Suc d] [seed] ! 0 = seed"
      unfolding unfold using len hd0 by (simp add: nth_append)
    fix k assume k: "k < Suc d"
    show "fold step [p..<p + Suc d] [seed] ! (k + 1) =
            (prices ! (p + k) - fold step [p..<p + Suc d] [seed] ! k) * m
            + fold step [p..<p + Suc d] [seed] ! k"
    proof (cases "k < d")
      case True
      then show ?thesis unfolding unfold using len rec by (simp add: nth_append)
    next
      case False
      with k have "k = d" by simp
      then show ?thesis unfolding unfold using len by (simp add: nth_append)
    qed
  qed
qed

text \<open>
  Claim C8. For a period \<open>p \<ge> 1\<close> and at least \<open>p\<close> prices, the first value of
  \<open>calculateEMA\<close> is the arithmetic mean of the first \<open>p\<close> prices, and each later value
  is \<open>previous + (price - previous) * (2 / (p + 1))\<close> where \<open>price\<close> is the next price of
  the series; for period 3 on \<open>[1,2,3,4,5]\<close> the result is exactly \<open>[2,3,4]\<close>.
\<close>

theorem calculateEMA_recurrence:
  assumes "1 \<le> p" and "p \<le> length prices"
  shows "calculateEMA prices p ! 0 = sum_list (take p prices) / real p
       \<and> (\<forall>k. k + 1 < length (calculateEMA prices p) \<longrightarrow>
            calculateEMA prices p ! (k + 1) =
              calculateEMA prices p ! k
              + (prices ! (p + k) - calculateEMA prices p ! k) * (2 / (real p + 1)))
       \<and> calculateEMA [1, 2, 3, 4, 5] 3 = [2, 3, 4]"
proof -
  define seed where "seed = sum_list (take p prices) / real p"
  define m :: real where "m = 2 / (real p + 1)"
  obtain d where d: "length prices = p + d" using assms(2) le_Suc_ex by blast
  have eq: "calculateEMA prices p =
      fold (\<lambda>i ev. ev @ [(prices ! i - last ev) * m + last ev]) [p..<p + d] [seed]"
    using assms(2) d by (simp add: calculateEMA_def Let_def ema_seed_sum seed_def m_def)
  note L = ema_loop_nth[where p=p and d=d and prices=prices and m=m and seed=seed]
  have "calculateEMA prices p ! 0 = seed" using L eq by simp
  moreover have "\<forall>k. k + 1 < length (calculateEMA prices p) \<longrightarrow>
            calculateEMA prices p ! (k + 1) =
              calculateEMA prices p ! k + (prices ! (p + k) - calculateEMA prices p ! k) * m"
    using L unfolding eq by (auto simp: algebra_simps)
  moreover have "calculateEMA [1, 2, 3, 4, 5] 3 = [2, 3, 4]" by code_simp
  ultimately show ?thesis unfolding seed_def m_def by blast
qed

theorem calculateEMA_recurrence_witness:
  "(1::nat) \<le> 3 \<and> (3::nat) \<le> length [1, 2, 3, 4, 5 :: real]
   \<and> calculateEMA [1, 2, 3, 4, 5] 3 ! 0 = sum_list (take 3 [1, 2, 3, 4, 5]) / real 3
   \<and> calculateEMA [1, 2, 3, 4, 5] 3 ! 1 = 3
   \<and> calculateEMA [1, 2, 3, 4, 5] 3 = [2, 3, 4]"
  using calculateEMA_recurrence [of 3 "[1, 2, 3, 4, 5]"] by simp

lemma fold_invariant:
  assumes "P a" and "\<And>i b. P b \<Longrightarrow> P (f i b)"
  shows "P (fold f is a)"
  using assms(1) by (induction "is" arbitrary: a) (simp_all add: assms(2))

subsection \<open>Facts about the retracement levels\<close>

text \<open>
  Claim C3. For every non-empty window of prices, \<open>calculateFibLevels\<close> returns a record
  with \<open>high \<ge> level_236 \<ge> level_382 \<ge> level_500 \<ge> level_618 \<ge> level_786 \<ge> low\<close>; when
  the window is flat (its range \<open>high - low\<close> is \<open>0\<close>) all seven values are equal.
\<close>

theorem calculateFibLevels_ordered:
  assumes "trailingWindow prices lookback \<noteq> []"
  shows "\<exists>f. calculateFibLevels prices lookback = Some f
           \<and> high f \<ge> level_236 f \<and> level_236 f \<ge> level_382 f \<and> level_382 f \<ge> level_500 f
           \<and> level_500 f \<ge> level_618 f \<and> level_618 f \<ge> level_786 f \<and> level_786 f \<ge> low f
           \<and> (high f - low f = 0 \<longrightarrow>
                 level_236 f = high f \<and> level_382 f = high f \<and> level_500 f = high f
               \<and> level_618 f = high f \<and> level_786 f = high f \<and> low f = high f)"
proof -
  define H where "H = Max (set (trailingWindow prices lookback))"
  define L where "L = Min (set (trailingWindow prices lookback))"
  have LH: "L \<le> H"
    unfolding H_def L_def using assms by (simp add: Min_le_iff)
  have eq: "calculateFibLevels prices lookback =
      Some \<lparr> high = H, low = L,
              level_236 = H - (H - L) * (236 / 1000),
              level_382 = H - (H - L) * (382 / 1000),
              level_500 = H - (H - L) * (5 / 10),
              level_618 = H - (H - L) * (618 / 1000),
              level_786 = H - (H - L) * (786 / 1000) \<rparr>"
    using assms by (simp add: calculateFibLevels_def Let_def H_def L_def)
  have "H \<ge> H - (H - L) * (236 / 1000)" using LH by argo
  moreover have "H - (H - L) * (236 / 1000) \<ge> H - (H - L) * (382 / 1000)" using LH by argo
  moreover have "H - (H - L) * (382 / 1000) \<ge> H - (H - L) * (5 / 10)" using LH by argo
  moreover have "H - (H - L) * (5 / 10) \<ge> H - (H - L) * (618 / 1000)" using LH by argo
  moreover have "H - (H - L) * (618 / 1000) \<ge> H - (H - L) * (786 / 1000)" using LH by argo
  moreover have "H - (H - L) * (786 / 1000) \<ge> L" using LH by argo
  ultimately show ?thesis unfolding eq by simp
qed

theorem calculateFibLevels_ordered_witness:
  "trailingWindow [50, 100] 60 \<noteq> []
   \<and> calculateFibLevels [50, 100] 60 =
       Some \<lparr> high = 100, low = 50, level_236 = 441 / 5, level_382 = 809 / 10, level_500 = 75,
               level_618 = 691 / 10, level_786 = 607 / 10 \<rparr>
   \<and> trailingWindow [42, 42, 42] 2 \<noteq> []
   \<and> calculateFibLevels [42, 42, 42] 2 =
       Some \<lparr> high = 42, low = 42, level_236 = 42, level_382 = 42, level_500 = 42,
               level_618 = 42, level_786 = 42 \<rparr>"
  using calculateFibLevels_ordered [of "[50, 100]" 60] calculateFibLevels_ordered [of "[42, 42, 42]" 2]
  by (simp add: calculateFibLevels_def trailingWindow_def)

subsection \<open>Facts about the relative strength index\<close>

lemma rsiInitial_nonneg:
  "0 \<le> fst (rsiInitial prices period) \<and> 0 \<le> snd (rsiInitial prices period)"
  unfolding rsiInitial_def
  by (rule fold_invariant) (auto simp: Let_def split: prod.splits)

lemma rsiSmooth_nonneg:
  assumes "1 \<le> period" and "0 \<le> fst a \<and> 0 \<le> snd a"
  shows "0 \<le> fst (rsiSmooth prices period i a) \<and> 0 \<le> snd (rsiSmooth prices period i a)"
proof -
  obtain g l where a: "a = (g, l)" by (cases a)
  have p: "0 \<le> real period - 1" using assms(1) by simp
  have "0 \<le> g * (real period - 1)" and "0 \<le> l * (real period - 1)"
    using assms(2) p by (simp_all add: a)
  then show ?thesis
    by (auto simp: a rsiSmooth_def Let_def intro!: divide_nonneg_nonneg add_nonneg_nonneg)
qed

lemma rsiSmooth_loop_nonneg:
  assumes "1 \<le> period"
  shows "0 \<le> fst (fold (rsiSmooth prices period) is
                  (fst (rsiInitial prices period) / real period,
                   snd (rsiInitial prices period) / real period))
       \<and> 0 \<le> snd (fold (rsiSmooth prices period) is
                  (fst (rsiInitial prices period) / real period,
                   snd (rsiInitial prices period) / real period))"
proof (rule fold_invariant [where P = "\<lambda>a. 0 \<le> fst a \<and> 0 \<le> snd a"])
  show "0 \<le> fst (fst (rsiInitial prices period) / real period,
                  snd (rsiInitial prices period) / real period)
      \<and> 0 \<le> snd (fst (rsiInitial prices period) / real period,
                  snd (rsiInitial prices period) / real period)"
    using rsiInitial_nonneg [of prices period] by simp
next
  fix i and b :: "real \<times> real"
  assume "0 \<le> fst b \<and> 0 \<le> snd b"
  then show "0 \<le> fst (rsiSmooth prices period i b) \<and> 0 \<le> snd (rsiSmooth prices period i b)"
    by (rule rsiSmooth_nonneg [OF assms])
qed

lemma rsiAverages_unfold:
  "rsiAverages prices period =
     fold (rsiSmooth prices period) [period + 1..<length prices]
       (fst (rsiInitial prices period) / real period, snd (rsiInitial prices period) / real period)"
  by (simp add: rsiAverages_def split: prod.splits)

text \<open>
  Claim C2. For a period \<open>\<ge> 1\<close>, \<open>calculateRSI\<close> returns a value in \<open>[0, 100]\<close>. With fewer
  than \<open>period + 1\<close> prices it returns \<open>50\<close>. Otherwise, with \<open>(avgGain, avgLoss)\<close> the
  averages after the smoothing loop, it returns \<open>100\<close> when \<open>avgLoss = 0\<close> and
  \<open>100 - 100 / (1 + avgGain / avgLoss)\<close> when not; both averages are non-negative after
  every number of smoothing steps (\<open>is\<close> is any list of the indices smoothed so far).
\<close>

theorem calculateRSI_range:
  assumes "1 \<le> period"
  shows "0 \<le> calculateRSI prices period \<and> calculateRSI prices period \<le> 100
       \<and> (length prices < period + 1 \<longrightarrow> calculateRSI prices period = 50)
       \<and> (period + 1 \<le> length prices \<longrightarrow>
            (snd (rsiAverages prices period) = 0 \<longrightarrow> calculateRSI prices period = 100)
          \<and> (snd (rsiAverages prices period) \<noteq> 0 \<longrightarrow>
               calculateRSI prices period =
                 100 - 100 / (1 + fst (rsiAverages prices period) / snd (rsiAverages prices period))))
       \<and> (\<forall>is. 0 \<le> fst (fold (rsiSmooth prices period) is
                           (fst (rsiInitial prices period) / real period,
                            snd (rsiInitial prices period) / real period))
              \<and> 0 \<le> snd (fold (rsiSmooth prices period) is
                           (fst (rsiInitial prices period) / real period,
                            snd (rsiInitial prices period) / real period)))"
proof -
  obtain g l where gl: "rsiAverages prices period = (g, l)" by (cases "rsiAverages prices period")
  have "fold (rsiSmooth prices period) [period + 1..<length prices]
          (fst (rsiInitial prices period) / real period,
           snd (rsiInitial prices period) / real period) = (g, l)"
    using gl unfolding rsiAverages_unfold .
  then have nn: "0 \<le> g \<and> 0 \<le> l"
    using rsiSmooth_loop_nonneg [OF assms, of prices "[period + 1..<length prices]"]
    by (simp only: fst_conv snd_conv)
  have range: "0 \<le> calculateRSI prices period \<and> calculateRSI prices period \<le> 100"
  proof (cases "length prices < period + 1 \<or> l = 0")
    case True
    then show ?thesis by (auto simp: calculateRSI_def gl)
  next
    case False
    then have lpos: "0 < l" using nn by simp
    then have q: "0 \<le> g / l" using nn by simp
    then have "0 < 1 + g / l" by simp
    then have "100 / (1 + g / l) \<le> 100" "0 \<le> 100 / (1 + g / l)"
      using q by (simp_all add: divide_le_eq)
    with False show ?thesis by (simp add: calculateRSI_def gl Let_def)
  qed
  have cases: "(length prices < period + 1 \<longrightarrow> calculateRSI prices period = 50)
       \<and> (period + 1 \<le> length prices \<longrightarrow>
            (l = 0 \<longrightarrow> calculateRSI prices period = 100)
          \<and> (l \<noteq> 0 \<longrightarrow> calculateRSI prices period = 100 - 100 / (1 + g / l)))"
    by (simp add: calculateRSI_def gl Let_def)
  show ?thesis
    using range cases rsiSmooth_loop_nonneg[OF assms, of prices] by (simp add: gl)
qed

theorem calculateRSI_range_witness:
  "(1::nat) \<le> 2
   \<and> calculateRSI [1, 2, 1, 3] 2 = 250 / 3
   \<and> rsiAverages [1, 2, 1, 3] 2 = (5 / 4, 1 / 4)
   \<and> calculateRSI [1, 2] 2 = 50
   \<and> calculateRSI [1, 2, 3] 2 = 100
   \<and> 0 \<le> calculateRSI [1, 2, 1, 3] 2 \<and> calculateRSI [1, 2, 1, 3] 2 \<le> 100"
  using calculateRSI_range [of 2 "[1, 2, 1, 3]"] calculateRSI_range [of 2 "[1, 2]"]
    calculateRSI_range [of 2 "[1, 2, 3]"]
  by (simp add: rsiAverages_def rsiInitial_def rsiSmooth_def upt_rec)

subsection \<open>Facts about the composite score\<close>

lemma trailingWindow_nonempty: "prices \<noteq> [] \<Longrightarrow> trailingWindow prices lookback \<noteq> []"
  by (cases prices) (auto simp: trailingWindow_def)

lemma trailingWindow_last: "prices \<noteq> [] \<Longrightarrow> last (trailingWindow prices lookback) = last prices"
  by (cases prices) (auto simp: trailingWindow_def)

lemma getLatestEMA_nonempty:
  "prices \<noteq> [] \<Longrightarrow> \<exists>e. getLatestEMA prices period = Some e"
  by (simp add: getLatestEMA_def Let_def)

lemma indicators_nonempty:
  assumes "closePrices \<noteq> []"
  shows "\<exists>fib ema9 ema21 ema50 ema200.
           calculateFibLevels closePrices 60 = Some fib
         \<and> getLatestEMA closePrices 9 = Some ema9 \<and> getLatestEMA closePrices 21 = Some ema21
         \<and> getLatestEMA closePrices 50 = Some ema50 \<and> getLatestEMA closePrices 200 = Some ema200
         \<and> indicators closePrices =
             Some \<lparr> i_price = last closePrices, i_fib = fib,
                     i_nearest = findNearestFibLevels (last closePrices) fib,
                     i_rsi = calculateRSI closePrices 14,
                     i_ema9 = ema9, i_ema21 = ema21, i_ema50 = ema50, i_ema200 = ema200,
                     i_macd = calculateMACD closePrices \<rparr>"
proof -
  obtain fib where f: "calculateFibLevels closePrices 60 = Some fib"
    using trailingWindow_nonempty [OF assms, of 60] by (simp add: calculateFibLevels_def Let_def)
  obtain e9 e21 e50 e200 where e: "getLatestEMA closePrices 9 = Some e9"
      "getLatestEMA closePrices 21 = Some e21" "getLatestEMA closePrices 50 = Some e50"
      "getLatestEMA closePrices 200 = Some e200"
    using getLatestEMA_nonempty [OF assms] by meson
  show ?thesis using assms f e by (simp add: indicators_def Let_def)
qed

text \<open>The result for the two-price series \<open>[10, 11]\<close>, computed from the definitions.\<close>

lemma generateSignals_two_prices:
  "generateSignals ''T'' [10, 11] ''2025-01-01'' =
     Some \<lparr> ticker = ''T'', date = ''2025-01-01'', rsi_14 = 50, ema_9 = 11, ema_21 = 11,
             ema_50 = 11, ema_200 = 11, macd_line = 0, macd_signal = 0, macd_histogram = 0,
             fib_levels = \<lparr> high = 11, low = 10, level_236 = 2691 / 250,
                            level_382 = 5309 / 500, level_500 = 21 / 2,
                            level_618 = 5191 / 500, level_786 = 5107 / 500 \<rparr>,
             signal_score = - 7, signal_label = ''neutral'',
             nearest_fib_support = Some 11, nearest_fib_resistance = Some 11 \<rparr>"
  by code_simp

lemma scoreFibPosition_bound: "\<bar>scoreFibPosition price fib\<bar> \<le> 25"
  by (simp add: scoreFibPosition_def Let_def)

lemma scoreRSI_bound: "\<bar>scoreRSI rsi\<bar> \<le> 20"
  by (simp add: scoreRSI_def)

lemma scoreEMAAlignment_bound: "\<bar>scoreEMAAlignment price e9 e21 e50 e200\<bar> \<le> 20"
  unfolding scoreEMAAlignment_def Let_def by (simp only: abs_le_iff) linarith

lemma scoreSRProximity_bound: "\<bar>scoreSRProximity price s r\<bar> \<le> 15"
proof (cases "\<not> truthy s \<and> \<not> truthy r")
  case True
  then show ?thesis by (simp add: scoreSRProximity_def)
next
  case False
  have "\<bar>max (- 15) (min 15 x)\<bar> \<le> 15" for x :: real by linarith
  with False show ?thesis by (simp only: scoreSRProximity_def Let_def if_False)
qed

lemma scoreMACDMomentum_bound: "\<bar>scoreMACDMomentum m s h\<bar> \<le> 15"
proof -
  have "\<bar>max (- 15) (min 15 x)\<bar> \<le> 15" for x :: real by linarith
  then show ?thesis by (simp only: scoreMACDMomentum_def Let_def)
qed

lemma totalScore_bound: "\<bar>totalScore (subScores ind)\<bar> \<le> 95"
  using scoreFibPosition_bound [of "i_price ind" "i_fib ind"] scoreRSI_bound [of "i_rsi ind"]
    scoreEMAAlignment_bound [of "i_price ind" "i_ema9 ind" "i_ema21 ind" "i_ema50 ind" "i_ema200 ind"]
    scoreSRProximity_bound [of "i_price ind" "support (i_nearest ind)" "resistance (i_nearest ind)"]
    scoreMACDMomentum_bound [of "macdLine (i_macd ind)" "signalLine (i_macd ind)" "histogram (i_macd ind)"]
  by (simp add: totalScore_def subScores_def)


text \<open>
  Claim C5. Each of the five sub-scores of \<open>generateSignals\<close> respects its bound
  (\<open>\<plusminus>25\<close>, \<open>\<plusminus>20\<close>, \<open>\<plusminus>20\<close>, \<open>\<plusminus>15\<close>, \<open>\<plusminus>15\<close>), so their sum lies in \<open>[-95, 95]\<close>
  and the clamp to \<open>[-100, 100]\<close> leaves it unchanged: for a non-empty series the
  \<open>signal_score\<close> of the result is the unclamped sum. The bounds hold for any values of the
  indicators, not only for those computed from a series.
\<close>

theorem subScores_within_bounds:
  "(\<forall>ind. \<bar>fibScore (subScores ind)\<bar> \<le> 25 \<and> \<bar>rsiScore (subScores ind)\<bar> \<le> 20
        \<and> \<bar>emaScore (subScores ind)\<bar> \<le> 20 \<and> \<bar>srScore (subScores ind)\<bar> \<le> 15
        \<and> \<bar>macdScore (subScores ind)\<bar> \<le> 15
        \<and> - 95 \<le> totalScore (subScores ind) \<and> totalScore (subScores ind) \<le> 95
        \<and> max (- 100) (min 100 (totalScore (subScores ind))) = totalScore (subScores ind))
   \<and> (closePrices \<noteq> [] \<longrightarrow>
        (\<exists>ind r. indicators closePrices = Some ind
               \<and> generateSignals tick closePrices dat = Some r
               \<and> signal_score r = totalScore (subScores ind)))"
proof (intro conjI allI impI)
  fix ind
  show "\<bar>fibScore (subScores ind)\<bar> \<le> 25"
    by (simp add: subScores_def scoreFibPosition_bound)
  show "\<bar>rsiScore (subScores ind)\<bar> \<le> 20"
    by (simp add: subScores_def scoreRSI_bound)
  show "\<bar>emaScore (subScores ind)\<bar> \<le> 20"
    by (simp add: subScores_def scoreEMAAlignment_bound)
  show "\<bar>srScore (subScores ind)\<bar> \<le> 15"
    by (simp add: subScores_def scoreSRProximity_bound)
  show "\<bar>macdScore (subScores ind)\<bar> \<le> 15"
    by (simp add: subScores_def scoreMACDMomentum_bound)
  show "- 95 \<le> totalScore (subScores ind)" "totalScore (subScores ind) \<le> 95"
    "max (- 100) (min 100 (totalScore (subScores ind))) = totalScore (subScores ind)"
    using totalScore_bound [of ind] by linarith+
next
  assume "closePrices \<noteq> []"
  then obtain ind where ind: "indicators closePrices = Some ind"
    using indicators_nonempty by blast
  have "max (- 100) (min 100 (totalScore (subScores ind))) = totalScore (subScores ind)"
    using totalScore_bound [of ind] by linarith
  then show "\<exists>ind r. indicators closePrices = Some ind
               \<and> generateSignals tick closePrices dat = Some r
               \<and> signal_score r = totalScore (subScores ind)"
    using ind by (simp add: generateSignals_def Let_def)
qed

theorem subScores_within_bounds_witness:
  "[10, 11 :: real] \<noteq> []
   \<and> (\<exists>ind r. indicators [10, 11] = Some ind
             \<and> generateSignals ''T'' [10, 11] ''2025-01-01'' = Some r
             \<and> signal_score r = totalScore (subScores ind)
             \<and> totalScore (subScores ind) = - 7
             \<and> - 95 \<le> totalScore (subScores ind) \<and> totalScore (subScores ind) \<le> 95)"
  using subScores_within_bounds [of "[10, 11]" "''T''" "''2025-01-01''"]
  by (auto simp: generateSignals_two_prices)

lemma Ints_if: "a \<in> \<int> \<Longrightarrow> b \<in> \<int> \<Longrightarrow> (if c then a else b) \<in> \<int>"
  by simp

lemma Ints_max: "(a::real) \<in> \<int> \<Longrightarrow> b \<in> \<int> \<Longrightarrow> max a b \<in> \<int>"
  by (simp add: max_def)

lemma Ints_min: "(a::real) \<in> \<int> \<Longrightarrow> b \<in> \<int> \<Longrightarrow> min a b \<in> \<int>"
  by (simp add: min_def)

lemmas Ints_score_intros =
  Ints_if Ints_max Ints_min Ints_add Ints_diff Ints_minus Ints_numeral Ints_0 Ints_1

lemma scoreFibPosition_Ints: "scoreFibPosition price fib \<in> \<int>"
  unfolding scoreFibPosition_def Let_def by (intro Ints_score_intros)

lemma scoreRSI_Ints: "scoreRSI rsi \<in> \<int>"
  unfolding scoreRSI_def by (intro Ints_score_intros)

lemma scoreEMAAlignment_Ints: "scoreEMAAlignment price e9 e21 e50 e200 \<in> \<int>"
  unfolding scoreEMAAlignment_def Let_def by (intro Ints_score_intros)

lemma scoreSRProximity_Ints: "scoreSRProximity price s r \<in> \<int>"
  unfolding scoreSRProximity_def Let_def
  by (cases s; cases r) (simp_all only: option.case, (intro Ints_score_intros)+)

lemma scoreMACDMomentum_Ints: "scoreMACDMomentum m s h \<in> \<int>"
  unfolding scoreMACDMomentum_def Let_def by (intro Ints_score_intros)

lemma totalScore_Ints: "totalScore (subScores ind) \<in> \<int>"
  by (simp add: totalScore_def subScores_def scoreFibPosition_Ints scoreRSI_Ints
      scoreEMAAlignment_Ints scoreSRProximity_Ints scoreMACDMomentum_Ints)

text \<open>
  Claim C1. For every non-empty price series, every ticker and every as-of date,
  \<open>generateSignals\<close> returns a result whose \<open>signal_score\<close> is an integer in
  \<open>[-100, 100]\<close> and whose \<open>signal_label\<close> is read off that score by the thresholds in
  first-match order: \<open>\<ge> 50\<close> strong_buy, \<open>\<ge> 20\<close> buy, \<open>\<le> -50\<close> strong_sell, \<open>\<le> -20\<close>
  sell, otherwise neutral; so the label is one of those five strings.
\<close>

theorem generateSignals_score_label:
  assumes "closePrices \<noteq> []"
  shows "\<exists>r. generateSignals tick closePrices dat = Some r
           \<and> signal_score r \<in> \<int> \<and> - 100 \<le> signal_score r \<and> signal_score r \<le> 100
           \<and> signal_label r =
               (if signal_score r \<ge> 50 then ''strong_buy''
                else if signal_score r \<ge> 20 then ''buy''
                else if signal_score r \<le> - 50 then ''strong_sell''
                else if signal_score r \<le> - 20 then ''sell''
                else ''neutral'')
           \<and> signal_label r \<in> {''strong_buy'', ''buy'', ''strong_sell'', ''sell'', ''neutral''}"
proof -
  obtain ind where ind: "indicators closePrices = Some ind"
    using indicators_nonempty [OF assms] by blast
  define c where "c = max (- 100) (min 100 (totalScore (subScores ind)))"
  obtain r where r: "generateSignals tick closePrices dat = Some r"
    and sc: "signal_score r = c" and lb: "signal_label r = labelFromScore c"
    using ind by (simp add: generateSignals_def Let_def c_def)
  have "c \<in> \<int>"
    unfolding c_def by (intro Ints_max Ints_min totalScore_Ints Ints_minus Ints_numeral)
  moreover have "- 100 \<le> c" "c \<le> 100" unfolding c_def by simp_all
  moreover have "labelFromScore c \<in> {''strong_buy'', ''buy'', ''strong_sell'', ''sell'', ''neutral''}"
    by (simp add: labelFromScore_def)
  ultimately show ?thesis
    using r sc lb by (simp add: labelFromScore_def)
qed

theorem generateSignals_score_label_witness:
  "[10, 11 :: real] \<noteq> []
   \<and> (\<exists>r. generateSignals ''T'' [10, 11] ''2025-01-01'' = Some r
          \<and> signal_score r = - 7 \<and> signal_label r = ''neutral''
          \<and> signal_score r \<in> \<int> \<and> - 100 \<le> signal_score r \<and> signal_score r \<le> 100
          \<and> signal_label r \<in> {''strong_buy'', ''buy'', ''strong_sell'', ''sell'', ''neutral''})"
  using generateSignals_score_label [of "[10, 11]" "''T''" "''2025-01-01''"]
  by (auto simp: generateSignals_two_prices)

subsection \<open>Facts about the nearest levels\<close>

lemma nearestStep_support:
  "support (nearestStep cp level acc) =
     (if level \<le> cp
      then (case support acc of
              None \<Rightarrow> Some level
            | Some s \<Rightarrow> if s = 0 \<or> level > s then Some level else Some s)
      else support acc)"
  by (simp add: nearestStep_def Let_def split: option.splits)

lemma nearestStep_resistance:
  "resistance (nearestStep cp level acc) =
     (if level \<ge> cp
      then (case resistance acc of
              None \<Rightarrow> Some level
            | Some r \<Rightarrow> if r = 0 \<or> level < r then Some level else Some r)
      else resistance acc)"
  by (simp add: nearestStep_def Let_def split: option.splits)

lemma nearest_loop_support:
  assumes "0 \<notin> set cs"
  shows "support (fold (nearestStep cp) cs \<lparr> support = None, resistance = None \<rparr>) =
           (if filter (\<lambda>c. c \<le> cp) cs = [] then None
            else Some (Max (set (filter (\<lambda>c. c \<le> cp) cs))))"
  using assms
proof (induction cs rule: rev_induct)
  case Nil
  then show ?case by simp
next
  case (snoc x cs)
  let ?q = "filter (\<lambda>c. c \<le> cp) cs"
  have IH: "support (fold (nearestStep cp) cs \<lparr> support = None, resistance = None \<rparr>) =
           (if ?q = [] then None else Some (Max (set ?q)))"
    using snoc by simp
  show ?case
  proof (cases "x \<le> cp")
    case False
    then show ?thesis using IH by (simp add: nearestStep_support)
  next
    case True
    show ?thesis
    proof (cases "?q = []")
      case True
      with \<open>x \<le> cp\<close> IH show ?thesis by (simp add: nearestStep_support)
    next
      case False
      then have ne: "set ?q \<noteq> {}" by (simp only: set_empty not_False_eq_True)
      then have "Max (set ?q) \<in> set ?q" by (rule Max_in [OF finite_set])
      then have nz: "Max (set ?q) \<noteq> 0" using snoc.prems by auto
      have "set (?q @ [x]) = insert x (set ?q)" by simp
      then have "Max (set (?q @ [x])) = Max (insert x (set ?q))" by (simp only:)
      also have "\<dots> = max x (Max (set ?q))" by (rule Max_insert [OF finite_set ne])
      finally have "Max (set (?q @ [x])) = max x (Max (set ?q))" .
      with False \<open>x \<le> cp\<close> IH nz show ?thesis
        by (auto simp: nearestStep_support max_def)
    qed
  qed
qed

lemma nearest_loop_resistance:
  assumes "0 \<notin> set cs"
  shows "resistance (fold (nearestStep cp) cs \<lparr> support = None, resistance = None \<rparr>) =
           (if filter (\<lambda>c. c \<ge> cp) cs = [] then None
            else Some (Min (set (filter (\<lambda>c. c \<ge> cp) cs))))"
  using assms
proof (induction cs rule: rev_induct)
  case Nil
  then show ?case by simp
next
  case (snoc x cs)
  let ?q = "filter (\<lambda>c. c \<ge> cp) cs"
  have IH: "resistance (fold (nearestStep cp) cs \<lparr> support = None, resistance = None \<rparr>) =
           (if ?q = [] then None else Some (Min (set ?q)))"
    using snoc by simp
  show ?case
  proof (cases "x \<ge> cp")
    case False
    then show ?thesis using IH by (simp add: nearestStep_resistance)
  next
    case True
    show ?thesis
    proof (cases "?q = []")
      case True
      with \<open>x \<ge> cp\<close> IH show ?thesis by (simp add: nearestStep_resistance)
    next
      case False
      then have ne: "set ?q \<noteq> {}" by (simp only: set_empty not_False_eq_True)
      then have "Min (set ?q) \<in> set ?q" by (rule Min_in [OF finite_set])
      then have nz: "Min (set ?q) \<noteq> 0" using snoc.prems by auto
      have "set (?q @ [x]) = insert x (set ?q)" by simp
      then have "Min (set (?q @ [x])) = Min (insert x (set ?q))" by (simp only:)
      also have "\<dots> = min x (Min (set ?q))" by (rule Min_insert [OF finite_set ne])
      finally have "Min (set (?q @ [x])) = min x (Min (set ?q))" .
      with False \<open>x \<ge> cp\<close> IH nz show ?thesis
        by (auto simp: nearestStep_resistance min_def)
    qed
  qed
qed

text \<open>
  Where no candidate level is the number \<open>0\<close>, the loop of \<open>findNearestFibLevels\<close>
  computes what the specification asks for.
\<close>

lemma findNearestFibLevels_nonzero_levels:
  assumes "0 \<notin> set (fibCandidates fib)"
  shows "support (findNearestFibLevels cp fib) = specSupport cp fib
       \<and> resistance (findNearestFibLevels cp fib) = specResistance cp fib"
  using nearest_loop_support [OF assms, of cp] nearest_loop_resistance [OF assms, of cp]
  by (simp add: findNearestFibLevels_def specSupport_def specResistance_def Let_def)

text \<open>
  Claim C4 (not met by the code). The claim asks, for every current price and every record
  of levels, for the maximum candidate \<open>\<le>\<close> the price as support and the minimum candidate
  \<open>\<ge>\<close> the price as resistance, a candidate equal to the price qualifying as both. The
  loop tests \<open>!resistance || level < resistance\<close>, and \<open>!resistance\<close> also holds for a
  resistance of \<open>0\<close>: on the levels of the window \<open>[10, 0]\<close> and the current price \<open>0\<close>
  the candidate \<open>0\<close> equals the price, yet the resistance returned is the next level
  \<open>2.14\<close>, and \<open>generateSignals\<close> reports it for the series \<open>[10, 0]\<close>.
\<close>

theorem findNearestFibLevels_zero_level:
  "calculateFibLevels [10, 0] 60 =
     Some \<lparr> high = 10, low = 0, level_236 = 191 / 25, level_382 = 309 / 50, level_500 = 5,
             level_618 = 191 / 50, level_786 = 107 / 50 \<rparr>
   \<and> resistance (findNearestFibLevels 0
        \<lparr> high = 10, low = 0, level_236 = 191 / 25, level_382 = 309 / 50, level_500 = 5,
          level_618 = 191 / 50, level_786 = 107 / 50 \<rparr>) = Some (107 / 50)
   \<and> specResistance 0
        \<lparr> high = 10, low = 0, level_236 = 191 / 25, level_382 = 309 / 50, level_500 = 5,
          level_618 = 191 / 50, level_786 = 107 / 50 \<rparr> = Some 0
   \<and> map_option nearest_fib_resistance (generateSignals ''T'' [10, 0] ''2025-01-01'')
       = Some (Some (107 / 50))"
  by code_simp

subsection \<open>Facts about the result of the pipeline\<close>

lemma nearestStep_support_kept:
  "support acc \<noteq> None \<Longrightarrow> support (nearestStep cp level acc) \<noteq> None"
  by (auto simp: nearestStep_support split: option.splits)

lemma nearestStep_support_set:
  "level \<le> cp \<Longrightarrow> support (nearestStep cp level acc) \<noteq> None"
  by (auto simp: nearestStep_support split: option.splits)

lemma nearestStep_resistance_set:
  "cp \<le> level \<Longrightarrow> resistance (nearestStep cp level acc) \<noteq> None"
  by (auto simp: nearestStep_resistance split: option.splits)

lemma findNearestFibLevels_unfold:
  "findNearestFibLevels cp fib =
     nearestStep cp (high fib)
       (nearestStep cp (level_236 fib)
         (nearestStep cp (level_382 fib)
           (nearestStep cp (level_500 fib)
             (nearestStep cp (level_618 fib)
               (nearestStep cp (level_786 fib)
                 (nearestStep cp (low fib) \<lparr> support = None, resistance = None \<rparr>))))))"
  by (simp add: findNearestFibLevels_def fibCandidates_def)

lemma findNearestFibLevels_support_some:
  assumes "low fib \<le> cp"
  shows "support (findNearestFibLevels cp fib) \<noteq> None"
  unfolding findNearestFibLevels_unfold
  by (intro nearestStep_support_kept nearestStep_support_set assms)

lemma findNearestFibLevels_resistance_some:
  assumes "cp \<le> high fib"
  shows "resistance (findNearestFibLevels cp fib) \<noteq> None"
  unfolding findNearestFibLevels_unfold
  by (rule nearestStep_resistance_set [OF assms])

lemma calculateFibLevels_brackets_last:
  assumes "prices \<noteq> []" and "calculateFibLevels prices lookback = Some fib"
  shows "low fib \<le> last prices \<and> last prices \<le> high fib"
proof -
  let ?w = "trailingWindow prices lookback"
  have ne: "?w \<noteq> []" using assms(1) by (rule trailingWindow_nonempty)
  then have "last prices \<in> set ?w"
    using trailingWindow_last [OF assms(1), of lookback] last_in_set by metis
  then have "Min (set ?w) \<le> last prices" "last prices \<le> Max (set ?w)" by simp_all
  moreover have "low fib = Min (set ?w)" "high fib = Max (set ?w)"
    using assms(2) ne by (auto simp: calculateFibLevels_def Let_def)
  ultimately show ?thesis by simp
qed

text \<open>
  Claim C9. For every non-empty series of strictly positive prices, the result of
  \<open>generateSignals\<close> has both \<open>nearest_fib_support\<close> and \<open>nearest_fib_resistance\<close>
  non-null: the current price is the last element of the trailing window, so it lies
  between the window's low and high.
\<close>

theorem generateSignals_nearest_nonnull:
  assumes "closePrices \<noteq> []" and "\<forall>x \<in> set closePrices. 0 < x"
  shows "\<exists>r. generateSignals tick closePrices dat = Some r
           \<and> nearest_fib_support r \<noteq> None \<and> nearest_fib_resistance r \<noteq> None
           \<and> low (fib_levels r) \<le> last closePrices \<and> last closePrices \<le> high (fib_levels r)"
proof -
  obtain fib ema9 ema21 ema50 ema200 where
    fib: "calculateFibLevels closePrices 60 = Some fib" and
    ind: "indicators closePrices =
             Some \<lparr> i_price = last closePrices, i_fib = fib,
                     i_nearest = findNearestFibLevels (last closePrices) fib,
                     i_rsi = calculateRSI closePrices 14,
                     i_ema9 = ema9, i_ema21 = ema21, i_ema50 = ema50, i_ema200 = ema200,
                     i_macd = calculateMACD closePrices \<rparr>"
    using indicators_nonempty [OF assms(1)] by blast
  have br: "low fib \<le> last closePrices \<and> last closePrices \<le> high fib"
    using calculateFibLevels_brackets_last [OF assms(1) fib] .
  show ?thesis
    using br findNearestFibLevels_support_some [of fib "last closePrices"]
      findNearestFibLevels_resistance_some [of "last closePrices" fib]
    by (simp add: generateSignals_def ind Let_def)
qed

theorem generateSignals_nearest_nonnull_witness:
  "[10, 11 :: real] \<noteq> [] \<and> (0::real) < 10 \<and> (0::real) < 11
   \<and> (\<exists>r. generateSignals ''T'' [10, 11] ''2025-01-01'' = Some r
          \<and> nearest_fib_support r = Some 11 \<and> nearest_fib_resistance r = Some 11
          \<and> nearest_fib_support r \<noteq> None \<and> nearest_fib_resistance r \<noteq> None)"
  using generateSignals_nearest_nonnull [of "[10, 11]" "''T''" "''2025-01-01''"]
  by (simp add: generateSignals_two_prices)

lemma getLatestEMA_short:
  assumes "prices \<noteq> []" and "length prices < period"
  shows "calculateEMA prices period = [] \<and> getLatestEMA prices period = Some (last prices)"
  using assms by (simp add: getLatestEMA_def calculateEMA_def)

text \<open>
  Claim C10. Whenever a non-empty series is shorter than a moving-average period
  (9, 21, 50 or 200), so that the moving-average sequence of that period is empty,
  \<open>generateSignals\<close> reports the last closing price, rounded to two decimals, in that
  period's field, and the alignment sub-score is computed with the last closing price in
  that period's place.
\<close>

theorem generateSignals_short_series_ema:
  assumes "closePrices \<noteq> []"
  shows "\<exists>ind r. indicators closePrices = Some ind
           \<and> generateSignals tick closePrices dat = Some r
           \<and> (length closePrices < 9 \<longrightarrow>
                 calculateEMA closePrices 9 = [] \<and> i_ema9 ind = last closePrices
               \<and> ema_9 r = roundTo 2 (last closePrices))
           \<and> (length closePrices < 21 \<longrightarrow>
                 calculateEMA closePrices 21 = [] \<and> i_ema21 ind = last closePrices
               \<and> ema_21 r = roundTo 2 (last closePrices))
           \<and> (length closePrices < 50 \<longrightarrow>
                 calculateEMA closePrices 50 = [] \<and> i_ema50 ind = last closePrices
               \<and> ema_50 r = roundTo 2 (last closePrices))
           \<and> (length closePrices < 200 \<longrightarrow>
                 calculateEMA closePrices 200 = [] \<and> i_ema200 ind = last closePrices
               \<and> ema_200 r = roundTo 2 (last closePrices))
           \<and> emaScore (subScores ind) =
                 scoreEMAAlignment (last closePrices) (i_ema9 ind) (i_ema21 ind) (i_ema50 ind)
                   (i_ema200 ind)
           \<and> signal_score r =
                 fibScore (subScores ind) + rsiScore (subScores ind) + emaScore (subScores ind)
                 + srScore (subScores ind) + macdScore (subScores ind)"
proof -
  obtain fib ema9 ema21 ema50 ema200 where
    e: "getLatestEMA closePrices 9 = Some ema9" "getLatestEMA closePrices 21 = Some ema21"
       "getLatestEMA closePrices 50 = Some ema50" "getLatestEMA closePrices 200 = Some ema200" and
    ind: "indicators closePrices =
             Some \<lparr> i_price = last closePrices, i_fib = fib,
                     i_nearest = findNearestFibLevels (last closePrices) fib,
                     i_rsi = calculateRSI closePrices 14,
                     i_ema9 = ema9, i_ema21 = ema21, i_ema50 = ema50, i_ema200 = ema200,
                     i_macd = calculateMACD closePrices \<rparr>"
    using indicators_nonempty [OF assms] by blast
  let ?ind = "\<lparr> i_price = last closePrices, i_fib = fib,
                     i_nearest = findNearestFibLevels (last closePrices) fib,
                     i_rsi = calculateRSI closePrices 14,
                     i_ema9 = ema9, i_ema21 = ema21, i_ema50 = ema50, i_ema200 = ema200,
                     i_macd = calculateMACD closePrices \<rparr>"
  have clamp: "max (- 100) (min 100 (totalScore (subScores ?ind))) = totalScore (subScores ?ind)"
    using totalScore_bound [of ?ind] by linarith
  have s9: "length closePrices < 9 \<longrightarrow> calculateEMA closePrices 9 = [] \<and> ema9 = last closePrices"
    using getLatestEMA_short [OF assms, of 9] e(1) by auto
  have s21: "length closePrices < 21 \<longrightarrow> calculateEMA closePrices 21 = [] \<and> ema21 = last closePrices"
    using getLatestEMA_short [OF assms, of 21] e(2) by auto
  have s50: "length closePrices < 50 \<longrightarrow> calculateEMA closePrices 50 = [] \<and> ema50 = last closePrices"
    using getLatestEMA_short [OF assms, of 50] e(3) by auto
  have s200: "length closePrices < 200 \<longrightarrow> calculateEMA closePrices 200 = [] \<and> ema200 = last closePrices"
    using getLatestEMA_short [OF assms, of 200] e(4) by auto
  have sc: "emaScore (subScores ?ind) = scoreEMAAlignment (last closePrices) ema9 ema21 ema50 ema200"
    by (simp add: subScores_def)
  show ?thesis
    using s9 s21 s50 s200 sc clamp
    by (simp add: generateSignals_def ind Let_def) (simp add: totalScore_def)
qed

lemma generateSignals_eleven_prices:
  "generateSignals ''T'' [1, 2, 3, 4, 5, 6, 7, 8, 9, 10, 11] ''2025-01-01'' =
     Some \<lparr> ticker = ''T'', date = ''2025-01-01'', rsi_14 = 50, ema_9 = 7, ema_21 = 11,
             ema_50 = 11, ema_200 = 11, macd_line = 0, macd_signal = 0, macd_histogram = 0,
             fib_levels = \<lparr> high = 11, low = 1, level_236 = 216 / 25, level_382 = 359 / 50,
                            level_500 = 6, level_618 = 241 / 50, level_786 = 157 / 50 \<rparr>,
             signal_score = - 2, signal_label = ''neutral'',
             nearest_fib_support = Some 11, nearest_fib_resistance = Some 11 \<rparr>"
  by code_simp

theorem generateSignals_short_series_ema_witness:
  "[1, 2, 3, 4, 5, 6, 7, 8, 9, 10, 11 :: real] \<noteq> []
   \<and> length [1, 2, 3, 4, 5, 6, 7, 8, 9, 10, 11 :: real] < 21
   \<and> (\<exists>r. generateSignals ''T'' [1, 2, 3, 4, 5, 6, 7, 8, 9, 10, 11] ''2025-01-01'' = Some r
          \<and> ema_9 r = 7 \<and> ema_21 r = 11 \<and> ema_50 r = 11 \<and> ema_200 r = 11
          \<and> ema_21 r = roundTo 2 (last [1, 2, 3, 4, 5, 6, 7, 8, 9, 10, 11])
          \<and> ema_50 r = roundTo 2 (last [1, 2, 3, 4, 5, 6, 7, 8, 9, 10, 11])
          \<and> ema_200 r = roundTo 2 (last [1, 2, 3, 4, 5, 6, 7, 8, 9, 10, 11]))"
  using generateSignals_short_series_ema
          [of "[1, 2, 3, 4, 5, 6, 7, 8, 9, 10, 11]" "''T''" "''2025-01-01''"]
  by (auto simp: generateSignals_eleven_prices)

subsection \<open>Rounding of the result\<close>

lemma roundTo_scaled: "roundTo d x * 10 ^ d = of_int \<lfloor>x * 10 ^ d + 1 / 2\<rfloor>"
  by (simp add: roundTo_def mathRound_def)

lemma roundTo_hasDecimals: "hasDecimals d (roundTo d x)"
  unfolding hasDecimals_def roundTo_scaled by simp

lemma roundTo_nearest: "\<bar>roundTo d x - x\<bar> \<le> 1 / (2 * 10 ^ d)"
proof -
  define y where "y = x * 10 ^ d"
  have "of_int \<lfloor>y + 1 / 2\<rfloor> \<le> y + 1 / 2" "y + 1 / 2 < of_int \<lfloor>y + 1 / 2\<rfloor> + 1"
    by linarith+
  then have "\<bar>of_int \<lfloor>y + 1 / 2\<rfloor> - y\<bar> \<le> 1 / 2" by linarith
  then have "\<bar>roundTo d x * 10 ^ d - x * 10 ^ d\<bar> \<le> 1 / 2"
    unfolding roundTo_scaled y_def .
  then have "\<bar>roundTo d x - x\<bar> * 10 ^ d \<le> 1 / 2"
    by (simp add: left_diff_distrib [symmetric] abs_mult)
  then show ?thesis by (simp add: field_simps)
qed

text \<open>
  Claim C6 as stated fails: only the oscillator, the four moving averages and the three
  convergence values are rounded. For the one-price series \<open>[0.125]\<close> the retracement
  levels and the nearest support and resistance of the result are all \<open>0.125\<close>, which has
  three decimal places.
\<close>

theorem generateSignals_rounding_counterexample:
  "map_option (hasDecimals 2 \<circ> high \<circ> fib_levels)
     (generateSignals ''T'' [1 / 8] ''2025-01-01'') = Some False
   \<and> map_option (hasDecimals 2 \<circ> level_618 \<circ> fib_levels)
     (generateSignals ''T'' [1 / 8] ''2025-01-01'') = Some False
   \<and> map_option (map_option (hasDecimals 2) \<circ> nearest_fib_support)
     (generateSignals ''T'' [1 / 8] ''2025-01-01'') = Some (Some False)
   \<and> map_option (map_option (hasDecimals 2) \<circ> nearest_fib_resistance)
     (generateSignals ''T'' [1 / 8] ''2025-01-01'') = Some (Some False)
   \<and> map_option nearest_fib_support
     (generateSignals ''T'' [1 / 8] ''2025-01-01'') = Some (Some (1 / 8))"
  by code_simp

text \<open>
  Claim C6, amended. For every non-empty series the result of \<open>generateSignals\<close> has
  \<open>rsi_14\<close> and the four moving averages rounded to two decimal places and the three
  convergence values rounded to four, each to the nearest such number; the retracement
  levels and the nearest support and resistance are the values of \<open>calculateFibLevels\<close>
  and \<open>findNearestFibLevels\<close> as computed, without rounding.
\<close>

theorem generateSignals_rounding:
  assumes "closePrices \<noteq> []"
  shows "\<exists>ind r. indicators closePrices = Some ind
           \<and> generateSignals tick closePrices dat = Some r
           \<and> hasDecimals 2 (rsi_14 r) \<and> \<bar>rsi_14 r - calculateRSI closePrices 14\<bar> \<le> 1 / 200
           \<and> hasDecimals 2 (ema_9 r) \<and> \<bar>ema_9 r - i_ema9 ind\<bar> \<le> 1 / 200
           \<and> hasDecimals 2 (ema_21 r) \<and> \<bar>ema_21 r - i_ema21 ind\<bar> \<le> 1 / 200
           \<and> hasDecimals 2 (ema_50 r) \<and> \<bar>ema_50 r - i_ema50 ind\<bar> \<le> 1 / 200
           \<and> hasDecimals 2 (ema_200 r) \<and> \<bar>ema_200 r - i_ema200 ind\<bar> \<le> 1 / 200
           \<and> hasDecimals 4 (macd_line r)
           \<and> \<bar>macd_line r - macdLine (calculateMACD closePrices)\<bar> \<le> 1 / 20000
           \<and> hasDecimals 4 (macd_signal r)
           \<and> \<bar>macd_signal r - signalLine (calculateMACD closePrices)\<bar> \<le> 1 / 20000
           \<and> hasDecimals 4 (macd_histogram r)
           \<and> \<bar>macd_histogram r - histogram (calculateMACD closePrices)\<bar> \<le> 1 / 20000
           \<and> calculateFibLevels closePrices 60 = Some (fib_levels r)
           \<and> nearest_fib_support r =
                 support (findNearestFibLevels (last closePrices) (fib_levels r))
           \<and> nearest_fib_resistance r =
                 resistance (findNearestFibLevels (last closePrices) (fib_levels r))"
proof -
  obtain fib ema9 ema21 ema50 ema200 where
    fib: "calculateFibLevels closePrices 60 = Some fib" and
    ind: "indicators closePrices =
             Some \<lparr> i_price = last closePrices, i_fib = fib,
                     i_nearest = findNearestFibLevels (last closePrices) fib,
                     i_rsi = calculateRSI closePrices 14,
                     i_ema9 = ema9, i_ema21 = ema21, i_ema50 = ema50, i_ema200 = ema200,
                     i_macd = calculateMACD closePrices \<rparr>"
    using indicators_nonempty [OF assms] by blast
  let ?ind = "\<lparr> i_price = last closePrices, i_fib = fib,
                     i_nearest = findNearestFibLevels (last closePrices) fib,
                     i_rsi = calculateRSI closePrices 14,
                     i_ema9 = ema9, i_ema21 = ema21, i_ema50 = ema50, i_ema200 = ema200,
                     i_macd = calculateMACD closePrices \<rparr>"
  obtain r where r: "generateSignals tick closePrices dat = Some r"
    and rsi: "rsi_14 r = roundTo 2 (calculateRSI closePrices 14)"
    and ema: "ema_9 r = roundTo 2 ema9" "ema_21 r = roundTo 2 ema21"
      "ema_50 r = roundTo 2 ema50" "ema_200 r = roundTo 2 ema200"
    and macd: "macd_line r = roundTo 4 (macdLine (calculateMACD closePrices))"
      "macd_signal r = roundTo 4 (signalLine (calculateMACD closePrices))"
      "macd_histogram r = roundTo 4 (histogram (calculateMACD closePrices))"
    and lv: "fib_levels r = fib"
      "nearest_fib_support r = support (findNearestFibLevels (last closePrices) fib)"
      "nearest_fib_resistance r = resistance (findNearestFibLevels (last closePrices) fib)"
    by (simp add: generateSignals_def ind Let_def)
  have two: "\<bar>roundTo 2 x - x\<bar> \<le> 1 / 200" for x
    using roundTo_nearest [of 2 x] by simp
  have four: "\<bar>roundTo 4 x - x\<bar> \<le> 1 / 20000" for x
    using roundTo_nearest [of 4 x] by simp
  have sel: "i_ema9 ?ind = ema9" "i_ema21 ?ind = ema21" "i_ema50 ?ind = ema50"
    "i_ema200 ?ind = ema200"
    by simp_all
  show ?thesis
    apply (rule exI [of _ ?ind], rule exI [of _ r])
    unfolding rsi ema macd lv sel
    by (intro conjI ind r roundTo_hasDecimals two four fib refl)
qed

theorem generateSignals_rounding_witness:
  "[1 / 8 :: real] \<noteq> []
   \<and> (\<exists>r. generateSignals ''T'' [1 / 8] ''2025-01-01'' = Some r
          \<and> hasDecimals 2 (ema_9 r) \<and> ema_9 r = 13 / 100
          \<and> \<bar>ema_9 r - 1 / 8\<bar> \<le> 1 / 200
          \<and> calculateFibLevels [1 / 8] 60 = Some (fib_levels r)
          \<and> high (fib_levels r) = 1 / 8
          \<and> nearest_fib_support r = Some (1 / 8))"
proof -
  have ex: "generateSignals ''T'' [1 / 8] ''2025-01-01'' =
     Some \<lparr> ticker = ''T'', date = ''2025-01-01'', rsi_14 = 50, ema_9 = 13 / 100,
             ema_21 = 13 / 100, ema_50 = 13 / 100, ema_200 = 13 / 100,
             macd_line = 0, macd_signal = 0, macd_histogram = 0,
             fib_levels = \<lparr> high = 1 / 8, low = 1 / 8, level_236 = 1 / 8,
                            level_382 = 1 / 8, level_500 = 1 / 8,
                            level_618 = 1 / 8, level_786 = 1 / 8 \<rparr>,
             signal_score = - 12, signal_label = ''neutral'',
             nearest_fib_support = Some (1 / 8),
             nearest_fib_resistance = Some (1 / 8) \<rparr>"
    by code_simp
  show ?thesis
    using generateSignals_rounding [of "[1 / 8]" "''T''" "''2025-01-01''"]
    by (auto simp: ex)
qed

end
